theory Spec2Isabelle
  imports Complex_Main
begin

section \<open>Strings\<close>

text \<open>
  A JavaScript string is modelled as a \<^typ>\<open>string\<close>; a \<^typ>\<open>char\<close> stands for a code unit
  below 256. The functions below are the string methods the worker calls.
\<close>

text \<open>\<^verbatim>\<open>String.prototype.trim\<close> strips white space and line terminators from both ends.\<close>

definition isWhiteSpace :: "char \<Rightarrow> bool" where
  "isWhiteSpace c = (c \<in> set [CHR 0x09, CHR 0x0A, CHR 0x0B, CHR 0x0C, CHR 0x0D, CHR 0x20, CHR 0xA0])"

definition trim :: "string \<Rightarrow> string" where
  "trim s = rev (dropWhile isWhiteSpace (rev (dropWhile isWhiteSpace s)))"

text \<open>\<^verbatim>\<open>s.split(',')\<close>: the pieces between the separators; the empty string gives one empty piece.\<close>

fun split :: "char \<Rightarrow> string \<Rightarrow> string list" where
  "split sep [] = [[]]"
| "split sep (c # cs) =
     (if c = sep then [] # split sep cs
      else (case split sep cs of [] \<Rightarrow> [[c]] | w # ws \<Rightarrow> (c # w) # ws))"

fun startsWith :: "string \<Rightarrow> string \<Rightarrow> bool" where
  "startsWith s [] = True"
| "startsWith [] (p # ps) = False"
| "startsWith (c # cs) (p # ps) = (c = p \<and> startsWith cs ps)"

text \<open>\<^verbatim>\<open>s.includes(p)\<close>: \<open>p\<close> occurs in \<open>s\<close> as a contiguous piece.\<close>

fun includes_str :: "string \<Rightarrow> string \<Rightarrow> bool" where
  "includes_str [] p = (p = [])"
| "includes_str (c # cs) p = (startsWith (c # cs) p \<or> includes_str cs p)"

text \<open>\<^verbatim>\<open>a || d\<close> on a string that may be null: the default replaces null and the empty string.\<close>

fun orElse :: "string option \<Rightarrow> string \<Rightarrow> string" where
  "orElse None d = d"
| "orElse (Some s) d = (if s = [] then d else s)"

text \<open>ASCII lower case, the normal form of a header name.\<close>

definition toLowerChar :: "char \<Rightarrow> char" where
  "toLowerChar c =
     (case map_of (zip ''ABCDEFGHIJKLMNOPQRSTUVWXYZ'' ''abcdefghijklmnopqrstuvwxyz'') c of
        Some d \<Rightarrow> d
      | None \<Rightarrow> c)"

definition toLowerCase :: "string \<Rightarrow> string" where
  "toLowerCase s = map toLowerChar s"

section \<open>Configuration\<close>

record env =
  GROQ_API_KEY :: string
  ALLOW_MODELS :: "string option"
  ALLOW_PATHS :: "string option"
  CORS_ORIGINS :: "string option"

text \<open>
  \<^verbatim>\<open>csv\<close>: split at commas, trim every piece, keep the non-empty ones
  (\<^verbatim>\<open>filter(Boolean)\<close>). An unset variable counts as the empty string.
\<close>

definition csv :: "string option \<Rightarrow> string list" where
  "csv s = filter (\<lambda>x. x \<noteq> []) (map trim (split CHR '','' (case s of None \<Rightarrow> [] | Some t \<Rightarrow> t)))"

section \<open>Headers\<close>

text \<open>
  A \<^verbatim>\<open>Headers\<close> object is a list of name/value pairs, one for each header line, with the
  values as the runtime stores them. Names match without regard to ASCII case; \<^verbatim>\<open>get\<close> joins
  the values of all matching entries with a comma and a space, \<^verbatim>\<open>set\<close> overwrites the first
  matching entry and removes the others, \<^verbatim>\<open>append\<close> adds an entry at the end, \<^verbatim>\<open>delete\<close>
  removes every matching entry. A copy (\<^verbatim>\<open>new Headers(h)\<close>) is the same list.
\<close>

type_synonym headers = "(string \<times> string) list"

definition sameName :: "string \<Rightarrow> string \<Rightarrow> bool" where
  "sameName a b = (toLowerCase a = toLowerCase b)"

definition hvalues :: "headers \<Rightarrow> string \<Rightarrow> string list" where
  "hvalues h n = map snd (filter (\<lambda>kv. sameName (fst kv) n) h)"

fun joinValues :: "string list \<Rightarrow> string option" where
  "joinValues [] = None"
| "joinValues (v # vs) = Some (foldl (\<lambda>a b. a @ '', '' @ b) v vs)"

definition hget :: "headers \<Rightarrow> string \<Rightarrow> string option" where
  "hget h n = joinValues (hvalues h n)"

definition hdelete :: "headers \<Rightarrow> string \<Rightarrow> headers" where
  "hdelete h n = filter (\<lambda>kv. \<not> sameName (fst kv) n) h"

fun hreplace :: "headers \<Rightarrow> string \<Rightarrow> string \<Rightarrow> headers" where
  "hreplace [] n v = []"
| "hreplace (kv # h) n v =
     (if sameName (fst kv) n then (fst kv, v) # hdelete h n else kv # hreplace h n v)"

definition hset :: "headers \<Rightarrow> string \<Rightarrow> string \<Rightarrow> headers" where
  "hset h n v = (if hvalues h n = [] then h @ [(toLowerCase n, v)] else hreplace h n v)"

definition happend :: "headers \<Rightarrow> string \<Rightarrow> string \<Rightarrow> headers" where
  "happend h n v = h @ [(toLowerCase n, v)]"

text \<open>A header line with this name and exactly this value is in the list.\<close>

definition hasHeader :: "headers \<Rightarrow> string \<Rightarrow> string \<Rightarrow> bool" where
  "hasHeader h n v = list_ex (\<lambda>kv. sameName (fst kv) n \<and> snd kv = v) h"

section \<open>JSON values\<close>

text \<open>
  The values \<^verbatim>\<open>JSON.parse\<close> produces. Numbers are carried as reals and never computed
  with; an object lists each of its keys once, in the order the runtime enumerates them.
\<close>

datatype jvalue =
    JNull
  | JBool bool
  | JNum real
  | JStr string
  | JArr "jvalue list"
  | JObj "(string \<times> jvalue) list"

text \<open>Reading a property: \<^verbatim>\<open>undefined\<close> (here \<open>None\<close>) unless the value is an object with that key.\<close>

fun field :: "jvalue \<Rightarrow> string \<Rightarrow> jvalue option" where
  "field (JObj kvs) k = map_of kvs k"
| "field v k = None"

section \<open>Requests, responses and the runtime\<close>

text \<open>
  A body stream handed on unread either yields its text when somebody reads it, or fails.
\<close>

datatype stream = Content string | Broken

datatype body = NoBody | Text string | Piped stream

text \<open>
  The incoming request, with its URL already parsed into \<^verbatim>\<open>pathname\<close> and \<^verbatim>\<open>search\<close>. Its body
  is \<open>None\<close> (null) or the text that reading it gives.
\<close>

record request =
  httpMethod :: string
  pathname :: string
  search :: string
  headers :: headers
  payload :: "string option"

definition readText :: "request \<Rightarrow> string" where
  "readText req = (case payload req of None \<Rightarrow> [] | Some s \<Rightarrow> s)"

text \<open>
  A response: status, headers and body. The \<^verbatim>\<open>Response\<close> constructor throws when the status
  is outside 200..599, and when a body comes with a null-body status (204, 205, 304; the
  others, 101 and 103, are below 200 already). Every response of the two workers but one is
  built with a fixed status that passes, or takes status and body together from the upstream's
  response; the exception is the helper \<^verbatim>\<open>json\<close> of the fixed-endpoint worker, which puts a
  text body under a status that may be the upstream's, and the check is part of it.
\<close>

definition refusesBody :: "nat \<Rightarrow> bool" where
  "refusesBody st = (st < 200 \<or> 599 < st \<or> st \<in> set [204, 205, 304])"

record response =
  status :: nat
  rheaders :: headers
  rbody :: body

text \<open>The target of an outbound call: an absolute URL, or a reference resolved against a base.\<close>

datatype target = Absolute string | Relative string string

record outbound =
  url :: target
  omethod :: string
  oheaders :: headers
  obody :: body

record upstream_response =
  ustatus :: nat
  uheaders :: headers
  ubody :: "stream option"

text \<open>\<^verbatim>\<open>Response.ok\<close>: the status is in the range 200 to 299.\<close>

definition ok :: "upstream_response \<Rightarrow> bool" where
  "ok r = (200 \<le> ustatus r \<and> ustatus r \<le> 299)"

text \<open>
  What the platform supplies: \<^verbatim>\<open>JSON.parse\<close> (\<open>None\<close> when it throws),
  \<^verbatim>\<open>JSON.stringify\<close>, and the global \<^verbatim>\<open>fetch\<close> that reaches the upstream (\<open>None\<close> when the
  transport fails and the call rejects).
\<close>

record runtime =
  JSON_parse :: "string \<Rightarrow> jvalue option"
  JSON_stringify :: "jvalue \<Rightarrow> string"
  upstream_fetch :: "outbound \<Rightarrow> upstream_response option"

text \<open>
  What one invocation of a handler does: the outbound call it made, if any, and the response
  it returned (\<open>None\<close> when the handler itself fails because the outbound call rejected).
\<close>

record outcome =
  sent :: "outbound option"
  reply :: "response option"

definition replied :: "response \<Rightarrow> outcome" where
  "replied r = \<lparr>sent = None, reply = Some r\<rparr>"

section \<open>The path-mirroring worker\<close>

definition UPSTREAM_ORIGIN :: string where
  "UPSTREAM_ORIGIN = ''https://api.groq.com''"

definition pickOrigin :: "request \<Rightarrow> env \<Rightarrow> string" where
  "pickOrigin req env =
     (let fromList = csv (CORS_ORIGINS env);
          reqOrigin = hget (headers req) ''Origin''
      in case fromList of
           [] \<Rightarrow> ''*''
         | origin # rest \<Rightarrow>
             (let fallback = (if origin \<noteq> [] then origin else ''*'')
              in case reqOrigin of
                   None \<Rightarrow> fallback
                 | Some r \<Rightarrow> if r \<noteq> [] \<and> r \<in> set fromList then r else fallback))"

text \<open>
  The resolution of the origin as the specification words it: the request's origin when the
  allowlist holds it, else the first entry of a non-empty allowlist, else the wildcard.
\<close>

fun spec_origin :: "string list \<Rightarrow> string option \<Rightarrow> string" where
  "spec_origin [] r = ''*''"
| "spec_origin (a # as) None = a"
| "spec_origin (a # as) (Some x) = (if x \<in> set (a # as) then x else a)"

definition withCORS :: "response \<Rightarrow> string \<Rightarrow> response" where
  "withCORS res origin =
     (let h0 = rheaders res;
          h1 = hset h0 ''Access-Control-Allow-Origin'' origin;
          h2 = hset h1 ''Access-Control-Allow-Headers'' ''Content-Type, Authorization'';
          h3 = hset h2 ''Access-Control-Allow-Methods'' ''GET, POST, OPTIONS'';
          h = (if origin \<noteq> ''*'' then happend h3 ''Vary'' ''Origin'' else h3)
      in \<lparr>status = status res, rheaders = h, rbody = rbody res\<rparr>)"

definition defaults :: "string list" where
  "defaults =
     [''/openai/v1/chat/completions'',
      ''/openai/v1/responses'',
      ''/openai/v1/embeddings'',
      ''/openai/v1/models'']"

definition allowedPath :: "string \<Rightarrow> env \<Rightarrow> bool" where
  "allowedPath p env =
     (let allow = csv (ALLOW_PATHS env);
          list = (if allow \<noteq> [] then allow else defaults)
      in list_ex (\<lambda>a. p = a \<or> startsWith p a) list)"

text \<open>
  The model the body asks for: the \<^verbatim>\<open>model\<close> property when the parsed value has one and it is
  a string, the empty string otherwise; trimmed.
\<close>

definition requested :: "jvalue \<Rightarrow> string" where
  "requested json = trim (case field json ''model'' of Some (JStr s) \<Rightarrow> s | _ \<Rightarrow> [])"

text \<open>
  \<^verbatim>\<open>raw ? JSON.parse(raw) : {}\<close> inside its \<^verbatim>\<open>try\<close>: the empty text stands for the empty
  object, \<open>None\<close> is the parse error that the \<^verbatim>\<open>catch\<close> turns into the 400.
\<close>

definition parseBody :: "runtime \<Rightarrow> string \<Rightarrow> jvalue option" where
  "parseBody rt raw = (if raw \<noteq> [] then JSON_parse rt raw else Some (JObj []))"

text \<open>
  The block "Prepare body" of \<^verbatim>\<open>fetch\<close>, given the outbound headers: either a response that
  ends the request, or the body to send.
\<close>

definition prepareBody :: "runtime \<Rightarrow> request \<Rightarrow> env \<Rightarrow> headers \<Rightarrow> response + body" where
  "prepareBody rt req env hs =
     (if httpMethod req = ''POST'' then
        (let ct = orElse (hget hs ''Content-Type'') [] in
         if includes_str ct ''application/json'' then
           (let raw = readText req in
            case parseBody rt raw of
              None \<Rightarrow>
                Inl \<lparr>status = 400, rheaders = [(''content-type'', ''application/json'')],
                     rbody = Text (JSON_stringify rt (JObj [(''error'', JStr ''Invalid JSON'')]))\<rparr>
            | Some json \<Rightarrow>
                (let allowedModels = csv (ALLOW_MODELS env);
                     m = requested json
                 in if allowedModels \<noteq> [] \<and> (m = [] \<or> m \<notin> set allowedModels) then
                      Inl \<lparr>status = 403, rheaders = [(''content-type'', ''application/json'')],
                           rbody = Text (JSON_stringify rt
                             (JObj [(''error'', JStr ''Model not allowed''),
                                    (''allowed'', JArr (map JStr allowedModels))]))\<rparr>
                    else Inr (Text (JSON_stringify rt json))))
         else Inr (case payload req of None \<Rightarrow> NoBody | Some s \<Rightarrow> Piped (Content s)))
      else Inr NoBody)"

text \<open>The outbound headers: a copy of the incoming ones with the secret injected.\<close>

definition outboundHeaders :: "request \<Rightarrow> env \<Rightarrow> headers" where
  "outboundHeaders req env =
     (let h0 = headers req;
          h1 = hset h0 ''Authorization'' (''Bearer '' @ GROQ_API_KEY env);
          h2 = hset h1 ''Content-Type'' (orElse (hget h1 ''Content-Type'') ''application/json'')
      in hdelete h2 ''Host'')"

text \<open>
  The \<^verbatim>\<open>fetch\<close> method of the path-mirroring worker. A response built from a string and no
  content type gets the constructor's \<^verbatim>\<open>text/plain\<close> one.
\<close>

definition fetch_mirror :: "runtime \<Rightarrow> request \<Rightarrow> env \<Rightarrow> outcome" where
  "fetch_mirror rt req env =
     (let origin = pickOrigin req env in
      if pathname req = ''/health'' then
        replied (withCORS
          \<lparr>status = 200, rheaders = [(''content-type'', ''application/json'')],
           rbody = Text (JSON_stringify rt (JObj [(''ok'', JBool True)]))\<rparr> origin)
      else if httpMethod req = ''OPTIONS'' then
        replied (withCORS \<lparr>status = 204, rheaders = [], rbody = NoBody\<rparr> origin)
      else if \<not> allowedPath (pathname req) env then
        replied (withCORS
          \<lparr>status = 404, rheaders = [(''content-type'', ''text/plain;charset=UTF-8'')],
           rbody = Text ''Not found''\<rparr> origin)
      else
        (let hs = outboundHeaders req env in
         case prepareBody rt req env hs of
           Inl res \<Rightarrow> replied (withCORS res origin)
         | Inr b \<Rightarrow>
             (let out = \<lparr>url = Relative (pathname req @ search req) UPSTREAM_ORIGIN,
                         omethod = httpMethod req,
                         oheaders = hs,
                         obody = (if httpMethod req = ''GET'' \<or> httpMethod req = ''HEAD'' then NoBody else b)\<rparr>
              in case upstream_fetch rt out of
                   None \<Rightarrow> \<lparr>sent = Some out, reply = None\<rparr>
                 | Some upstreamRes \<Rightarrow>
                     \<lparr>sent = Some out,
                      reply = Some (withCORS
                        \<lparr>status = ustatus upstreamRes, rheaders = uheaders upstreamRes,
                         rbody = (case ubody upstreamRes of None \<Rightarrow> NoBody | Some st \<Rightarrow> Piped st)\<rparr>
                        origin)\<rparr>)))"

section \<open>The fixed-endpoint worker\<close>

definition CORS_ORIGIN :: string where
  "CORS_ORIGIN = ''https://george.czabania.com''"

text \<open>
  \<^verbatim>\<open>json(data, status)\<close>; no call passes the third argument. The result is \<open>None\<close> when the
  constructor throws: the body is a text, so the status must admit one.
\<close>

definition json :: "runtime \<Rightarrow> jvalue \<Rightarrow> nat \<Rightarrow> response option" where
  "json rt data st =
     (if refusesBody st then None
      else Some
        \<lparr>status = st,
         rheaders = [(''content-type'', ''application/json''),
                     (''access-control-allow-origin'', CORS_ORIGIN),
                     (''access-control-allow-headers'', ''Content-Type, Authorization''),
                     (''access-control-allow-methods'', ''POST, OPTIONS'')],
         rbody = Text (JSON_stringify rt data)\<rparr>)"

definition corsPreflight :: response where
  "corsPreflight =
     \<lparr>status = 204,
      rheaders = [(''access-control-allow-origin'', CORS_ORIGIN),
                  (''access-control-allow-headers'', ''Content-Type, Authorization''),
                  (''access-control-allow-methods'', ''POST, OPTIONS''),
                  (''access-control-max-age'', ''86400'')],
      rbody = NoBody\<rparr>"

text \<open>A destructured property with a default: the default stands in for \<^verbatim>\<open>undefined\<close> only.\<close>

fun withDefault :: "jvalue option \<Rightarrow> jvalue \<Rightarrow> jvalue" where
  "withDefault None d = d"
| "withDefault (Some v) d = v"

text \<open>
  \<^verbatim>\<open>!user || typeof user !== "string"\<close> lets through a non-empty string only: every other
  value fails the \<^verbatim>\<open>typeof\<close> test, and a string is falsy exactly when it is empty.
\<close>

fun presentUser :: "jvalue option \<Rightarrow> jvalue option" where
  "presentUser (Some (JStr s)) = (if s = [] then None else Some (JStr s))"
| "presentUser v = None"

text \<open>
  The payload for the upstream, built from the parsed request body (\<^verbatim>\<open>body ?? {}\<close> puts the
  empty object in the place of null); \<open>None\<close> when \<^verbatim>\<open>user\<close> is missing.
\<close>

definition buildPayload :: "jvalue \<Rightarrow> jvalue option" where
  "buildPayload body =
     (let b = (if body = JNull then JObj [] else body);
          system = withDefault (field b ''system'') (JStr ''You are a helpful assistant.'');
          model = withDefault (field b ''model'') (JStr ''llama-3.1-8b-instant'');
          temperature = withDefault (field b ''temperature'') (JNum 1);
          max_tokens = withDefault (field b ''max_tokens'') (JNum 1024);
          top_p = withDefault (field b ''top_p'') (JNum 1);
          stop = field b ''stop''
      in case presentUser (field b ''user'') of
           None \<Rightarrow> None
         | Some user \<Rightarrow>
             Some (JObj
               ([(''model'', model),
                 (''temperature'', temperature),
                 (''top_p'', top_p),
                 (''stream'', JBool True),
                 (''max_completion_tokens'', max_tokens),
                 (''messages'', JArr
                    [JObj [(''role'', JStr ''system''), (''content'', system)],
                     JObj [(''role'', JStr ''user''), (''content'', user)]])]
                @ (case stop of None \<Rightarrow> [] | Some JNull \<Rightarrow> [] | Some v \<Rightarrow> [(''stop'', v)]))))"

text \<open>
  \<^verbatim>\<open>await groqRes.text()\<close>: a null body reads as the empty string, a stream that fails makes
  the call throw (\<open>None\<close>).
\<close>

fun readBody :: "stream option \<Rightarrow> string option" where
  "readBody None = Some []"
| "readBody (Some (Content s)) = Some s"
| "readBody (Some Broken) = None"

text \<open>The \<^verbatim>\<open>details\<close> of the error path: they stay empty when reading the body throws.\<close>

definition upstreamText :: "upstream_response \<Rightarrow> string" where
  "upstreamText groqRes = (case readBody (ubody groqRes) of None \<Rightarrow> [] | Some s \<Rightarrow> s)"

text \<open>
  What the handler returns once the upstream has answered; \<open>None\<close> when \<^verbatim>\<open>json\<close> throws and
  the handler fails with it.
\<close>

definition relay :: "runtime \<Rightarrow> upstream_response \<Rightarrow> response option" where
  "relay rt groqRes =
     (if \<not> ok groqRes \<or> ubody groqRes = None then
        (let details = upstreamText groqRes
         in json rt
              (JObj [(''error'', JStr ''Upstream Groq error''),
                     (''status'', JNum (real (ustatus groqRes))),
                     (''details'', JStr (take 2000 details))])
              (ustatus groqRes))
      else
        Some
          \<lparr>status = 200,
           rheaders =
             hset (hset (hset (hset (hset (hset []
               ''Content-Type'' ''text/event-stream'')
               ''Cache-Control'' ''no-cache'')
               ''Connection'' ''keep-alive'')
               ''Access-Control-Allow-Origin'' CORS_ORIGIN)
               ''Access-Control-Allow-Headers'' ''Content-Type, Authorization'')
               ''Access-Control-Allow-Methods'' ''POST, OPTIONS'',
           rbody = (case ubody groqRes of None \<Rightarrow> NoBody | Some st \<Rightarrow> Piped st)\<rparr>)"

text \<open>The \<^verbatim>\<open>fetch\<close> method of the fixed-endpoint worker.\<close>

definition fetch_fixed :: "runtime \<Rightarrow> request \<Rightarrow> env \<Rightarrow> outcome" where
  "fetch_fixed rt request env =
     (if httpMethod request = ''OPTIONS'' then replied corsPreflight
      else if pathname request = ''/health'' then
        \<lparr>sent = None, reply = json rt (JObj [(''ok'', JBool True)]) 200\<rparr>
      else if pathname request \<noteq> ''/chat'' then
        replied \<lparr>status = 404, rheaders = [(''content-type'', ''text/plain;charset=UTF-8'')],
                 rbody = Text ''Not found''\<rparr>
      else if httpMethod request \<noteq> ''POST'' then
        replied \<lparr>status = 405, rheaders = [(''content-type'', ''text/plain;charset=UTF-8'')],
                 rbody = Text ''Method Not Allowed''\<rparr>
      else
        (case JSON_parse rt (readText request) of
           None \<Rightarrow> \<lparr>sent = None, reply = json rt (JObj [(''error'', JStr ''Invalid JSON'')]) 400\<rparr>
         | Some body \<Rightarrow>
             (case buildPayload body of
                None \<Rightarrow>
                  \<lparr>sent = None,
                   reply = json rt (JObj [(''error'', JStr ''Missing 'user' (string) in body'')]) 400\<rparr>
              | Some p \<Rightarrow>
                  (let out = \<lparr>url = Absolute ''https://api.groq.com/openai/v1/chat/completions'',
                              omethod = ''POST'',
                              oheaders = [(''authorization'', ''Bearer '' @ GROQ_API_KEY env),
                                          (''content-type'', ''application/json'')],
                              obody = Text (JSON_stringify rt p)\<rparr>
                   in case upstream_fetch rt out of
                        None \<Rightarrow> \<lparr>sent = Some out, reply = None\<rparr>
                      | Some groqRes \<Rightarrow> \<lparr>sent = Some out, reply = relay rt groqRes\<rparr>))))"

section \<open>A sample runtime\<close>

text \<open>
  The examples run on a small runtime: \<^verbatim>\<open>JSON.parse\<close> and \<^verbatim>\<open>JSON.stringify\<close> restricted to
  the texts below (any other text is rejected as malformed), and an upstream that gives a fixed
  answer.
\<close>

definition quoted :: "string \<Rightarrow> string" where
  "quoted s = [CHR 0x22] @ s @ [CHR 0x22]"

definition text_ok :: string where
  "text_ok = ''{'' @ quoted ''ok'' @ '':true}''"

definition text_user_hi :: string where
  "text_user_hi = ''{'' @ quoted ''user'' @ '':'' @ quoted ''hi'' @ ''}''"

definition text_user_empty :: string where
  "text_user_empty = ''{'' @ quoted ''user'' @ '':'' @ quoted [] @ ''}''"

definition text_model_gpt4 :: string where
  "text_model_gpt4 = ''{'' @ quoted ''model'' @ '':'' @ quoted ''gpt-4'' @ ''}''"

definition text_envelope_429 :: string where
  "text_envelope_429 =
     ''{'' @ quoted ''error'' @ '':'' @ quoted ''Upstream Groq error'' @ '','' @
     quoted ''status'' @ '':429,'' @ quoted ''details'' @ '':'' @ quoted ''slow down'' @ ''}''"

definition sample_texts :: "(string \<times> jvalue) list" where
  "sample_texts =
     [(''{}'', JObj []),
      (text_ok, JObj [(''ok'', JBool True)]),
      (text_user_hi, JObj [(''user'', JStr ''hi'')]),
      (text_user_empty, JObj [(''user'', JStr [])]),
      (text_model_gpt4, JObj [(''model'', JStr ''gpt-4'')]),
      (text_envelope_429,
       JObj [(''error'', JStr ''Upstream Groq error''),
             (''status'', JNum 429),
             (''details'', JStr ''slow down'')])]"

definition sample_parse :: "string \<Rightarrow> jvalue option" where
  "sample_parse s = map_of sample_texts s"

definition sample_stringify :: "jvalue \<Rightarrow> string" where
  "sample_stringify v =
     (case map_of (map (\<lambda>tv. (snd tv, fst tv)) sample_texts) v of
        Some t \<Rightarrow> t
      | None \<Rightarrow> ''[json]'')"

definition sample_runtime :: "upstream_response option \<Rightarrow> runtime" where
  "sample_runtime answer =
     \<lparr>JSON_parse = sample_parse, JSON_stringify = sample_stringify,
      upstream_fetch = (\<lambda>out. answer)\<rparr>"

definition sample_env :: env where
  "sample_env = \<lparr>GROQ_API_KEY = ''gsk_secret'', ALLOW_MODELS = None, ALLOW_PATHS = None,
                  CORS_ORIGINS = None\<rparr>"

definition strict_env :: env where
  "strict_env = sample_env\<lparr>ALLOW_MODELS := Some ''llama-3.1-8b-instant''\<rparr>"

definition open_env :: env where
  "open_env = sample_env\<lparr>ALLOW_PATHS := Some ''/''\<rparr>"

text \<open>A POST with the content type \<^verbatim>\<open>application/json\<close>.\<close>

definition post_json :: "string \<Rightarrow> string option \<Rightarrow> request" where
  "post_json path b =
     \<lparr>httpMethod = ''POST'', pathname = path, search = [],
      headers = [(''content-type'', ''application/json'')], payload = b\<rparr>"

definition vary_answer :: upstream_response where
  "vary_answer = \<lparr>ustatus = 200, uheaders = [(''vary'', ''Origin'')], ubody = Some (Content ''[]'')\<rparr>"

definition no_content :: upstream_response where
  "no_content = \<lparr>ustatus = 204, uheaders = [], ubody = None\<rparr>"

definition rate_limited :: upstream_response where
  "rate_limited = \<lparr>ustatus = 429, uheaders = [], ubody = Some (Content ''slow down'')\<rparr>"

section \<open>Facts about the configuration lists and the header operations\<close>

lemma csv_no_empty: "[] \<notin> set (csv s)"
  by (simp add: csv_def)

lemma toLowerChar_idem: "toLowerChar (toLowerChar c) = toLowerChar c"
  by (simp add: toLowerChar_def)

lemma toLowerCase_idem: "toLowerCase (toLowerCase n) = toLowerCase n"
  by (induction n) (simp_all add: toLowerCase_def toLowerChar_idem)

lemma sameName_lower [simp]: "sameName (toLowerCase n) m = sameName n m"
  by (simp add: sameName_def toLowerCase_idem)

lemma hvalues_same: "sameName n m \<Longrightarrow> hvalues h n = hvalues h m"
  by (simp add: hvalues_def sameName_def)

lemma sameName_refl [simp]: "sameName n n"
  by (simp add: sameName_def)

lemma hvalues_Nil [simp]: "hvalues [] n = []"
  by (simp add: hvalues_def)

lemma hvalues_Cons: "hvalues (kv # h) n = (if sameName (fst kv) n then snd kv # hvalues h n else hvalues h n)"
  by (simp add: hvalues_def)

lemma hvalues_append: "hvalues (h @ g) n = hvalues h n @ hvalues g n"
  by (simp add: hvalues_def)

lemma hvalues_hdelete:
  "hvalues (hdelete h n) m = (if sameName n m then [] else hvalues h m)"
  by (induction h) (auto simp: hvalues_def hdelete_def sameName_def)

lemma hvalues_hreplace:
  "hvalues (hreplace h n v) m =
     (if sameName n m then (if hvalues h n = [] then [] else [v]) else hvalues h m)"
  by (induction h) (auto simp: hvalues_Cons hvalues_hdelete sameName_def)

lemma hvalues_hset:
  "hvalues (hset h n v) m = (if sameName n m then [v] else hvalues h m)"
proof (cases "sameName n m")
  case True
  then have "hvalues h m = hvalues h n" by (simp add: hvalues_same)
  with True show ?thesis
    by (simp add: hset_def hvalues_append hvalues_Cons hvalues_hreplace)
next
  case False
  then show ?thesis
    by (simp add: hset_def hvalues_append hvalues_Cons hvalues_hreplace)
qed

lemma hvalues_happend:
  "hvalues (happend h n v) m = hvalues h m @ (if sameName n m then [v] else [])"
  by (simp add: happend_def hvalues_append hvalues_Cons)

lemma hget_hset: "hget (hset h n v) m = (if sameName n m then Some v else hget h m)"
  by (simp add: hget_def hvalues_hset)

lemma hget_hdelete: "hget (hdelete h n) m = (if sameName n m then None else hget h m)"
  by (simp add: hget_def hvalues_hdelete)

lemma hget_happend_other: "\<not> sameName n m \<Longrightarrow> hget (happend h n v) m = hget h m"
  by (simp add: hget_def hvalues_happend)

lemma hasHeader_set: "hasHeader h n v \<longleftrightarrow> (\<exists>kv \<in> set h. sameName (fst kv) n \<and> snd kv = v)"
  by (simp add: hasHeader_def list_ex_iff)

lemma hasHeader_hvalues: "hasHeader h n v \<longleftrightarrow> v \<in> set (hvalues h n)"
  by (auto simp: hasHeader_set hvalues_def)



lemma lower_lits:
  "toLowerCase ''Access-Control-Allow-Origin'' = ''access-control-allow-origin''"
  "toLowerCase ''Access-Control-Allow-Headers'' = ''access-control-allow-headers''"
  "toLowerCase ''Access-Control-Allow-Methods'' = ''access-control-allow-methods''"
  "toLowerCase ''Vary'' = ''vary''"
  "toLowerCase ''Origin'' = ''origin''"
  "toLowerCase ''Authorization'' = ''authorization''"
  "toLowerCase ''Content-Type'' = ''content-type''"
  "toLowerCase ''Host'' = ''host''"
  "toLowerCase ''Cache-Control'' = ''cache-control''"
  "toLowerCase ''Connection'' = ''connection''"
  "toLowerCase ''access-control-allow-origin'' = ''access-control-allow-origin''"
  "toLowerCase ''access-control-allow-headers'' = ''access-control-allow-headers''"
  "toLowerCase ''access-control-allow-methods'' = ''access-control-allow-methods''"
  "toLowerCase ''access-control-max-age'' = ''access-control-max-age''"
  "toLowerCase ''vary'' = ''vary''"
  "toLowerCase ''origin'' = ''origin''"
  "toLowerCase ''authorization'' = ''authorization''"
  "toLowerCase ''content-type'' = ''content-type''"
  "toLowerCase ''host'' = ''host''"
  by (simp_all add: toLowerCase_def toLowerChar_def)

lemma withCORS_status [simp]: "status (withCORS res origin) = status res"
  by (simp add: withCORS_def Let_def)

lemma withCORS_rbody [simp]: "rbody (withCORS res origin) = rbody res"
  by (simp add: withCORS_def Let_def)

lemma withCORS_origin:
  "hget (rheaders (withCORS res origin)) ''Access-Control-Allow-Origin'' = Some origin"
  by (simp add: withCORS_def Let_def hget_hset hget_happend_other sameName_def lower_lits)

lemma withCORS_allow_headers:
  "hget (rheaders (withCORS res origin)) ''Access-Control-Allow-Headers'' = Some ''Content-Type, Authorization''"
  by (simp add: withCORS_def Let_def hget_hset hget_happend_other sameName_def lower_lits)

lemma withCORS_allow_methods:
  "hget (rheaders (withCORS res origin)) ''Access-Control-Allow-Methods'' = Some ''GET, POST, OPTIONS''"
  by (simp add: withCORS_def Let_def hget_hset hget_happend_other sameName_def lower_lits)

lemma csv_None [simp]: "csv None = []"
  by (simp add: csv_def trim_def)

lemma sample_parse_user_empty:
  "sample_parse text_user_empty = Some (JObj [(''user'', JStr [])])"
  by (simp add: sample_parse_def sample_texts_def quoted_def text_ok_def text_user_hi_def
      text_user_empty_def)

lemma sample_parse_user_hi:
  "sample_parse text_user_hi = Some (JObj [(''user'', JStr ''hi'')])"
  by (simp add: sample_parse_def sample_texts_def quoted_def text_ok_def text_user_hi_def
      text_user_empty_def)

lemma buildPayload_hi:
  "buildPayload (JObj [(''user'', JStr ''hi'')]) = Some (JObj
       [(''model'', JStr ''llama-3.1-8b-instant''),
        (''temperature'', JNum 1),
        (''top_p'', JNum 1),
        (''stream'', JBool True),
        (''max_completion_tokens'', JNum 1024),
        (''messages'', JArr
           [JObj [(''role'', JStr ''system''), (''content'', JStr ''You are a helpful assistant.'')],
            JObj [(''role'', JStr ''user''), (''content'', JStr ''hi'')]])])"
  by (simp add: buildPayload_def)

lemma relay_headers:
  "ok g \<Longrightarrow> ubody g = Some st \<Longrightarrow>
     \<exists>r. relay rt g = Some r \<and> status r = 200 \<and> rbody r = Piped st \<and>
     hget (rheaders r) ''Content-Type'' = Some ''text/event-stream'' \<and>
     hget (rheaders r) ''Cache-Control'' = Some ''no-cache'' \<and>
     hget (rheaders r) ''Connection'' = Some ''keep-alive'' \<and>
     hget (rheaders r) ''Access-Control-Allow-Origin'' = Some CORS_ORIGIN"
  by (simp add: relay_def hget_hset sameName_def lower_lits)

lemma relay_envelope:
  "\<not> ok g \<or> ubody g = None \<Longrightarrow>
     relay rt g =
       (if refusesBody (ustatus g) then None
        else Some
          \<lparr>status = ustatus g,
           rheaders = [(''content-type'', ''application/json''),
                       (''access-control-allow-origin'', CORS_ORIGIN),
                       (''access-control-allow-headers'', ''Content-Type, Authorization''),
                       (''access-control-allow-methods'', ''POST, OPTIONS'')],
           rbody = Text (JSON_stringify rt (JObj
             [(''error'', JStr ''Upstream Groq error''),
              (''status'', JNum (real (ustatus g))),
              (''details'', JStr (take 2000
                 (case ubody g of None \<Rightarrow> [] | Some (Content s) \<Rightarrow> s | Some Broken \<Rightarrow> [])))]))\<rparr>)"
  by (auto simp: relay_def json_def upstreamText_def Let_def split: option.splits stream.splits)

lemma sent_fixed:
  "sent (fetch_fixed rt req env) = Some out \<Longrightarrow>
     reply (fetch_fixed rt req env) = Option.bind (upstream_fetch rt out) (relay rt)"
  by (auto simp: fetch_fixed_def Let_def replied_def split: if_splits option.splits)

lemma passes_400: "\<not> refusesBody 400" "\<not> refusesBody 200"
  by (simp_all add: refusesBody_def)

section \<open>Preflight requests (path-mirroring worker)\<close>

text \<open>
  Claim C6 says that an OPTIONS request gets status 204, no body and the CORS headers whatever
  its path is, and never reaches the upstream. The health check comes first in the handler, so
  an OPTIONS request to \<^verbatim>\<open>/health\<close> gets the health answer: status 200 with a body.
\<close>

theorem options_health_counterexample:
  "reply (fetch_mirror (sample_runtime None)
      \<lparr>httpMethod = ''OPTIONS'', pathname = ''/health'', search = [], headers = [], payload = None\<rparr>
      sample_env)
   = Some \<lparr>status = 200,
        rheaders = [(''content-type'', ''application/json''),
          (''access-control-allow-origin'', ''*''),
          (''access-control-allow-headers'', ''Content-Type, Authorization''),
          (''access-control-allow-methods'', ''GET, POST, OPTIONS'')],
        rbody = Text text_ok\<rparr>"
  by (simp add: fetch_mirror_def Let_def replied_def withCORS_def pickOrigin_def sample_env_def
      hset_def hvalues_def sameName_def lower_lits sample_runtime_def sample_stringify_def
      sample_texts_def)

text \<open>
  Claim C6, amended: every OPTIONS request whose path is not \<^verbatim>\<open>/health\<close> gets status 204, no
  body and the CORS headers (the resolved origin, the allowed headers and the allowed methods),
  and nothing is sent to the upstream.
\<close>

theorem options_preflight:
  "httpMethod req = ''OPTIONS'' \<and> pathname req \<noteq> ''/health'' \<longrightarrow>
     sent (fetch_mirror rt req env) = None \<and>
     (\<exists>r. reply (fetch_mirror rt req env) = Some r \<and> status r = 204 \<and> rbody r = NoBody
          \<and> hget (rheaders r) ''Access-Control-Allow-Origin'' = Some (pickOrigin req env)
          \<and> hget (rheaders r) ''Access-Control-Allow-Headers'' = Some ''Content-Type, Authorization''
          \<and> hget (rheaders r) ''Access-Control-Allow-Methods'' = Some ''GET, POST, OPTIONS'')"
  by (simp add: fetch_mirror_def Let_def replied_def withCORS_origin withCORS_allow_headers
      withCORS_allow_methods)

theorem options_preflight_witness:
  "sent (fetch_mirror (sample_runtime None)
      \<lparr>httpMethod = ''OPTIONS'', pathname = ''/anything'', search = [], headers = [], payload = None\<rparr>
      sample_env) = None \<and>
   (\<exists>r. reply (fetch_mirror (sample_runtime None)
      \<lparr>httpMethod = ''OPTIONS'', pathname = ''/anything'', search = [], headers = [], payload = None\<rparr>
      sample_env) = Some r \<and> status r = 204 \<and> rbody r = NoBody
      \<and> hget (rheaders r) ''Access-Control-Allow-Origin'' = Some ''*'')"
proof -
  let ?req = "\<lparr>httpMethod = ''OPTIONS'', pathname = ''/anything'', search = [], headers = [],
    payload = None\<rparr>"
  have h: "httpMethod ?req = ''OPTIONS'' \<and> pathname ?req \<noteq> ''/health''"
    by simp
  have o: "pickOrigin ?req sample_env = ''*''"
    by (simp add: pickOrigin_def sample_env_def)
  from options_preflight [of ?req "sample_runtime None" sample_env] h o
  show ?thesis by auto
qed

section \<open>The fixed-endpoint worker: payload and errors\<close>

text \<open>
  Claim C10: a POST to \<^verbatim>\<open>/chat\<close> whose body has a \<^verbatim>\<open>user\<close> that is the empty string is
  rejected like one whose body has no \<^verbatim>\<open>user\<close> at all: status 400, the body
  \<^verbatim>\<open>{error: "Missing 'user' (string) in body"}\<close>, and no call to the upstream.
\<close>

theorem empty_user_rejected:
  "httpMethod req = ''POST'' \<and> pathname req = ''/chat'' \<and> JSON_parse rt (readText req) = Some b \<and>
   (field b ''user'' = Some (JStr []) \<or> field b ''user'' = None) \<longrightarrow>
     sent (fetch_fixed rt req env) = None \<and>
     (\<exists>r. reply (fetch_fixed rt req env) = Some r \<and> status r = 400 \<and>
        rbody r = Text (JSON_stringify rt (JObj [(''error'', JStr ''Missing 'user' (string) in body'')])))"
  by (auto simp: fetch_fixed_def buildPayload_def Let_def json_def passes_400)

theorem empty_user_rejected_witness:
  "JSON_parse (sample_runtime None)
     (readText \<lparr>httpMethod = ''POST'', pathname = ''/chat'', search = [], headers = [],
        payload = Some text_user_empty\<rparr>)
     = Some (JObj [(''user'', JStr [])]) \<and>
   sent (fetch_fixed (sample_runtime None)
     \<lparr>httpMethod = ''POST'', pathname = ''/chat'', search = [], headers = [],
        payload = Some text_user_empty\<rparr> sample_env) = None \<and>
   (\<exists>r. reply (fetch_fixed (sample_runtime None)
     \<lparr>httpMethod = ''POST'', pathname = ''/chat'', search = [], headers = [],
        payload = Some text_user_empty\<rparr> sample_env) = Some r \<and>
      status r = 400)"
proof -
  let ?req = "\<lparr>httpMethod = ''POST'', pathname = ''/chat'', search = [], headers = [],
        payload = Some text_user_empty\<rparr>"
  have p: "JSON_parse (sample_runtime None) (readText ?req) = Some (JObj [(''user'', JStr [])])"
    by (simp add: sample_runtime_def readText_def sample_parse_user_empty)
  have h: "httpMethod ?req = ''POST'' \<and> pathname ?req = ''/chat'' \<and>
    JSON_parse (sample_runtime None) (readText ?req) = Some (JObj [(''user'', JStr [])]) \<and>
    (field (JObj [(''user'', JStr [])]) ''user'' = Some (JStr []) \<or>
     field (JObj [(''user'', JStr [])]) ''user'' = None)"
    using p by simp
  from empty_user_rejected [of ?req "sample_runtime None" "JObj [(''user'', JStr [])]" sample_env] h p
  show ?thesis by blast
qed

text \<open>
  Claim C7: for a POST to \<^verbatim>\<open>/chat\<close> whose body parses to \<^verbatim>\<open>{"user":"hi"}\<close>, the handler sends
  the upstream the serialised payload with the default model, the two messages (the default
  system text, then the user's text), \<^verbatim>\<open>max_completion_tokens\<close> 1024, \<^verbatim>\<open>temperature\<close> 1,
  \<^verbatim>\<open>top_p\<close> 1, \<^verbatim>\<open>stream\<close> true and no \<^verbatim>\<open>stop\<close> key.
\<close>

theorem default_payload:
  "httpMethod req = ''POST'' \<and> pathname req = ''/chat'' \<and>
   JSON_parse rt (readText req) = Some (JObj [(''user'', JStr ''hi'')]) \<longrightarrow>
     (\<exists>out p. sent (fetch_fixed rt req env) = Some out \<and> obody out = Text (JSON_stringify rt p) \<and>
        p = JObj
          [(''model'', JStr ''llama-3.1-8b-instant''),
           (''temperature'', JNum 1),
           (''top_p'', JNum 1),
           (''stream'', JBool True),
           (''max_completion_tokens'', JNum 1024),
           (''messages'', JArr
              [JObj [(''role'', JStr ''system''), (''content'', JStr ''You are a helpful assistant.'')],
               JObj [(''role'', JStr ''user''), (''content'', JStr ''hi'')]])] \<and>
        field p ''stop'' = None)"
  by (auto simp: fetch_fixed_def buildPayload_hi Let_def replied_def split: option.splits)

theorem default_payload_witness:
  "JSON_parse (sample_runtime None)
     (readText \<lparr>httpMethod = ''POST'', pathname = ''/chat'', search = [], headers = [],
        payload = Some text_user_hi\<rparr>)
     = Some (JObj [(''user'', JStr ''hi'')]) \<and>
   (\<exists>out p. sent (fetch_fixed (sample_runtime None)
     \<lparr>httpMethod = ''POST'', pathname = ''/chat'', search = [], headers = [],
        payload = Some text_user_hi\<rparr> sample_env) = Some out \<and>
      obody out = Text (sample_stringify p) \<and>
      field p ''max_completion_tokens'' = Some (JNum 1024) \<and>
      field p ''stream'' = Some (JBool True) \<and>
      field p ''stop'' = None)"
proof -
  let ?req = "\<lparr>httpMethod = ''POST'', pathname = ''/chat'', search = [], headers = [],
        payload = Some text_user_hi\<rparr>"
  have p: "JSON_parse (sample_runtime None) (readText ?req) = Some (JObj [(''user'', JStr ''hi'')])"
    by (simp add: sample_runtime_def readText_def sample_parse_user_hi)
  have h: "httpMethod ?req = ''POST'' \<and> pathname ?req = ''/chat'' \<and>
    JSON_parse (sample_runtime None) (readText ?req) = Some (JObj [(''user'', JStr ''hi'')])"
    using p by simp
  have s: "JSON_stringify (sample_runtime None) = sample_stringify"
    by (simp add: sample_runtime_def)
  from default_payload [of ?req "sample_runtime None" sample_env] h
  obtain out p where "sent (fetch_fixed (sample_runtime None) ?req sample_env) = Some out"
    and "obody out = Text (sample_stringify p)"
    and "field p ''max_completion_tokens'' = Some (JNum 1024)"
    and "field p ''stream'' = Some (JBool True)"
    and "field p ''stop'' = None"
    unfolding s by auto
  with p show ?thesis by blast
qed

text \<open>
  Claim C8 says that, when the upstream's status is outside 200..299 or its body is null, the
  client receives the upstream's status and the JSON envelope with \<^verbatim>\<open>error\<close>, \<^verbatim>\<open>status\<close> and
  \<^verbatim>\<open>details\<close>, and the upstream's body under status 200 with the event-stream headers
  otherwise. The handler aims at that, and misses it where the upstream's status admits no
  body: there \<^verbatim>\<open>json\<close> throws, the handler fails and the client receives no envelope. An
  upstream 204, whose body is null, is such an answer. On every other answer the handler does
  what the claim says, with the details being the first 2000 characters of the upstream's text
  (the empty text when the body is null or cannot be read).
\<close>

theorem upstream_envelope:
  "sent (fetch_fixed rt req env) = Some out \<and> upstream_fetch rt out = Some g \<longrightarrow>
     (if \<not> ok g \<or> ubody g = None
      then (if refusesBody (ustatus g)
            then reply (fetch_fixed rt req env) = None
            else (\<exists>r. reply (fetch_fixed rt req env) = Some r \<and>
                    status r = ustatus g \<and>
                    rbody r = Text (JSON_stringify rt (JObj
                      [(''error'', JStr ''Upstream Groq error''),
                       (''status'', JNum (real (ustatus g))),
                       (''details'', JStr (take 2000
                          (case ubody g of
                             None \<Rightarrow> []
                           | Some (Content s) \<Rightarrow> s
                           | Some Broken \<Rightarrow> [])))]))))
      else (\<exists>r st. reply (fetch_fixed rt req env) = Some r \<and> status r = 200 \<and>
              ubody g = Some st \<and> rbody r = Piped st \<and>
              hget (rheaders r) ''Content-Type'' = Some ''text/event-stream'' \<and>
              hget (rheaders r) ''Cache-Control'' = Some ''no-cache'' \<and>
              hget (rheaders r) ''Connection'' = Some ''keep-alive''))"
proof (intro impI, elim conjE)
  assume s: "sent (fetch_fixed rt req env) = Some out" and u: "upstream_fetch rt out = Some g"
  from sent_fixed [OF s] u have r: "reply (fetch_fixed rt req env) = relay rt g"
    by simp
  show "if \<not> ok g \<or> ubody g = None
      then (if refusesBody (ustatus g)
            then reply (fetch_fixed rt req env) = None
            else (\<exists>r. reply (fetch_fixed rt req env) = Some r \<and>
                    status r = ustatus g \<and>
                    rbody r = Text (JSON_stringify rt (JObj
                      [(''error'', JStr ''Upstream Groq error''),
                       (''status'', JNum (real (ustatus g))),
                       (''details'', JStr (take 2000
                          (case ubody g of
                             None \<Rightarrow> []
                           | Some (Content s) \<Rightarrow> s
                           | Some Broken \<Rightarrow> [])))]))))
      else (\<exists>r st. reply (fetch_fixed rt req env) = Some r \<and> status r = 200 \<and>
              ubody g = Some st \<and> rbody r = Piped st \<and>
              hget (rheaders r) ''Content-Type'' = Some ''text/event-stream'' \<and>
              hget (rheaders r) ''Cache-Control'' = Some ''no-cache'' \<and>
              hget (rheaders r) ''Connection'' = Some ''keep-alive'')"
  proof (cases "\<not> ok g \<or> ubody g = None")
    case True
    from relay_envelope [OF True, of rt] True show ?thesis
      by (simp add: r)
  next
    case False
    then obtain st where st: "ok g" "ubody g = Some st" by auto
    from relay_headers [OF st, of rt] obtain x where "relay rt g = Some x" "status x = 200"
      "rbody x = Piped st"
      "hget (rheaders x) ''Content-Type'' = Some ''text/event-stream''"
      "hget (rheaders x) ''Cache-Control'' = Some ''no-cache''"
      "hget (rheaders x) ''Connection'' = Some ''keep-alive''"
      by blast
    with st False show ?thesis
      by (simp add: r)
  qed
qed

theorem upstream_envelope_witness:
  "(\<exists>out. sent (fetch_fixed (sample_runtime (Some no_content))
       \<lparr>httpMethod = ''POST'', pathname = ''/chat'', search = [], headers = [],
        payload = Some text_user_hi\<rparr> sample_env) = Some out) \<and>
   ok no_content \<and> ubody no_content = None \<and> ustatus no_content = 204 \<and>
   reply (fetch_fixed (sample_runtime (Some no_content))
       \<lparr>httpMethod = ''POST'', pathname = ''/chat'', search = [], headers = [],
        payload = Some text_user_hi\<rparr> sample_env) = None \<and>
   (\<exists>r. reply (fetch_fixed (sample_runtime (Some rate_limited))
       \<lparr>httpMethod = ''POST'', pathname = ''/chat'', search = [], headers = [],
        payload = Some text_user_hi\<rparr> sample_env) = Some r \<and>
      status r = 429 \<and> rbody r = Text text_envelope_429)"
proof -
  let ?req = "\<lparr>httpMethod = ''POST'', pathname = ''/chat'', search = [], headers = [],
        payload = Some text_user_hi\<rparr>"
  have p: "\<And>a. JSON_parse (sample_runtime a) (readText ?req) = Some (JObj [(''user'', JStr ''hi'')])"
    by (simp add: sample_runtime_def readText_def sample_parse_user_hi)
  have u: "\<And>a out. upstream_fetch (sample_runtime a) out = a"
    by (simp add: sample_runtime_def)
  have o: "\<And>a. \<exists>out. sent (fetch_fixed (sample_runtime (Some a)) ?req sample_env) = Some out"
    using p u by (simp add: fetch_fixed_def buildPayload_hi Let_def)
  from o obtain out1 where o1: "sent (fetch_fixed (sample_runtime (Some no_content)) ?req sample_env) = Some out1"
    by blast
  from o obtain out2 where o2: "sent (fetch_fixed (sample_runtime (Some rate_limited)) ?req sample_env) = Some out2"
    by blast
  have n: "ok no_content" "ubody no_content = None" "ustatus no_content = 204" "refusesBody 204"
    by (simp_all add: ok_def no_content_def refusesBody_def)
  have g: "\<not> ok rate_limited" "ustatus rate_limited = 429" "\<not> refusesBody 429"
    "ubody rate_limited = Some (Content ''slow down'')"
    by (simp_all add: ok_def rate_limited_def refusesBody_def)
  have t: "JSON_stringify (sample_runtime (Some rate_limited)) (JObj
                      [(''error'', JStr ''Upstream Groq error''),
                       (''status'', JNum 429),
                       (''details'', JStr ''slow down'')]) = text_envelope_429"
    by (simp add: sample_runtime_def sample_stringify_def sample_texts_def)
  from upstream_envelope [of "sample_runtime (Some no_content)" ?req sample_env out1 no_content] o1 u n
  have a: "reply (fetch_fixed (sample_runtime (Some no_content)) ?req sample_env) = None"
    by simp
  from upstream_envelope [of "sample_runtime (Some rate_limited)" ?req sample_env out2 rate_limited] o2 u g t
  have b: "\<exists>r. reply (fetch_fixed (sample_runtime (Some rate_limited)) ?req sample_env) = Some r \<and>
      status r = 429 \<and> rbody r = Text text_envelope_429"
    by simp
  from o1 n a b show ?thesis by blast
qed

text \<open>
  The error responses that the fixed-endpoint worker builds with \<^verbatim>\<open>json\<close> carry the CORS
  origin.
\<close>

lemma json_with_cors:
  "json rt data st = Some r \<Longrightarrow>
     hget (rheaders r) ''Access-Control-Allow-Origin'' = Some CORS_ORIGIN"
  by (auto simp: json_def hget_def hvalues_def sameName_def lower_lits split: if_splits)

text \<open>
  Claim C5 says that every error response carries \<^verbatim>\<open>Access-Control-Allow-Origin\<close>. In the
  fixed-endpoint worker the 404 for a path other than \<^verbatim>\<open>/chat\<close> and the 405 for a method other
  than POST are built without the \<^verbatim>\<open>json\<close> helper and carry no such header.
\<close>

theorem fixed_errors_without_cors:
  "httpMethod req \<noteq> ''OPTIONS'' \<and> pathname req \<noteq> ''/health'' \<and>
   (pathname req \<noteq> ''/chat'' \<or> httpMethod req \<noteq> ''POST'') \<longrightarrow>
     (\<exists>r. reply (fetch_fixed rt req env) = Some r \<and>
        status r = (if pathname req \<noteq> ''/chat'' then 404 else 405) \<and>
        hget (rheaders r) ''Access-Control-Allow-Origin'' = None)"
  by (auto simp: fetch_fixed_def replied_def hget_def hvalues_def sameName_def lower_lits)


theorem fixed_errors_without_cors_witness:
  "(\<exists>r. reply (fetch_fixed (sample_runtime None)
     \<lparr>httpMethod = ''GET'', pathname = ''/chat'', search = [], headers = [], payload = None\<rparr>
     sample_env) = Some r \<and> status r = 405 \<and>
     hget (rheaders r) ''Access-Control-Allow-Origin'' = None) \<and>
   (\<exists>r. reply (fetch_fixed (sample_runtime None)
     \<lparr>httpMethod = ''POST'', pathname = ''/nowhere'', search = [], headers = [], payload = None\<rparr>
     sample_env) = Some r \<and> status r = 404 \<and>
     hget (rheaders r) ''Access-Control-Allow-Origin'' = None)"
  using fixed_errors_without_cors [of
      "\<lparr>httpMethod = ''GET'', pathname = ''/chat'', search = [], headers = [], payload = None\<rparr>"
      "sample_runtime None" sample_env]
    fixed_errors_without_cors [of
      "\<lparr>httpMethod = ''POST'', pathname = ''/nowhere'', search = [], headers = [], payload = None\<rparr>"
      "sample_runtime None" sample_env]
  by simp

section \<open>The origin of the CORS headers (path-mirroring worker)\<close>

lemma pickOrigin_spec:
  "pickOrigin req env = spec_origin (csv (CORS_ORIGINS env)) (hget (headers req) ''Origin'')"
proof (cases "csv (CORS_ORIGINS env)")
  case Nil
  then show ?thesis by (simp add: pickOrigin_def)
next
  case (Cons a as)
  have "[] \<notin> set (csv (CORS_ORIGINS env))" by (rule csv_no_empty)
  with Cons have ne: "a \<noteq> []" "[] \<notin> set as" by auto
  show ?thesis
  proof (cases "hget (headers req) ''Origin''")
    case None
    with Cons ne show ?thesis by (simp add: pickOrigin_def)
  next
    case (Some x)
    with Cons ne show ?thesis by (auto simp: pickOrigin_def Let_def)
  qed
qed

lemma withCORS_vary:
  "hasHeader (rheaders (withCORS res origin)) ''Vary'' ''Origin'' \<longleftrightarrow>
     origin \<noteq> ''*'' \<or> hasHeader (rheaders res) ''Vary'' ''Origin''"
  by (simp add: withCORS_def Let_def hasHeader_hvalues hvalues_hset hvalues_happend sameName_def lower_lits)

lemma prepareBody_Inl:
  "prepareBody rt req env hs = Inl res \<Longrightarrow>
     rheaders res = [(''content-type'', ''application/json'')] \<and> (status res = 400 \<or> status res = 403)"
  by (auto simp: prepareBody_def Let_def split: if_splits option.splits)

lemma no_vary_literal:
  "\<not> hasHeader [] ''Vary'' ''Origin''"
  "\<not> hasHeader [(''content-type'', v)] ''Vary'' ''Origin''"
  by (simp_all add: hasHeader_def sameName_def lower_lits)

lemma mirror_reply:
  assumes r: "reply (fetch_mirror rt req env) = Some r"
  shows "\<exists>res. r = withCORS res (pickOrigin req env) \<and>
       (hasHeader (rheaders res) ''Vary'' ''Origin'' \<longrightarrow>
          (\<exists>out g. sent (fetch_mirror rt req env) = Some out \<and> upstream_fetch rt out = Some g \<and>
             hasHeader (uheaders g) ''Vary'' ''Origin''))"
proof -
  let ?o = "pickOrigin req env"
  consider (health) "pathname req = ''/health''"
    | (options) "pathname req \<noteq> ''/health''" "httpMethod req = ''OPTIONS''"
    | (notfound) "pathname req \<noteq> ''/health''" "httpMethod req \<noteq> ''OPTIONS''"
        "\<not> allowedPath (pathname req) env"
    | (inspect) "pathname req \<noteq> ''/health''" "httpMethod req \<noteq> ''OPTIONS''"
        "allowedPath (pathname req) env"
    by blast
  then show ?thesis
  proof cases
    case health
    with r have "r = withCORS \<lparr>status = 200, rheaders = [(''content-type'', ''application/json'')],
           rbody = Text (JSON_stringify rt (JObj [(''ok'', JBool True)]))\<rparr> ?o"
      by (simp add: fetch_mirror_def Let_def replied_def)
    then show ?thesis using no_vary_literal by fastforce
  next
    case options
    with r have "r = withCORS \<lparr>status = 204, rheaders = [], rbody = NoBody\<rparr> ?o"
      by (simp add: fetch_mirror_def Let_def replied_def)
    then show ?thesis using no_vary_literal by fastforce
  next
    case notfound
    with r have "r = withCORS \<lparr>status = 404, rheaders = [(''content-type'', ''text/plain;charset=UTF-8'')],
           rbody = Text ''Not found''\<rparr> ?o"
      by (simp add: fetch_mirror_def Let_def replied_def)
    then show ?thesis using no_vary_literal by fastforce
  next
    case inspect
    show ?thesis
    proof (cases "prepareBody rt req env (outboundHeaders req env)")
      case (Inl res)
      with inspect r have "r = withCORS res ?o"
        by (simp add: fetch_mirror_def Let_def replied_def)
      moreover from prepareBody_Inl [OF Inl] have "\<not> hasHeader (rheaders res) ''Vary'' ''Origin''"
        using no_vary_literal by simp
      ultimately show ?thesis by blast
    next
      case (Inr b)
      let ?out = "\<lparr>url = Relative (pathname req @ search req) UPSTREAM_ORIGIN,
                         omethod = httpMethod req,
                         oheaders = outboundHeaders req env,
                         obody = (if httpMethod req = ''GET'' \<or> httpMethod req = ''HEAD'' then NoBody else b)\<rparr>"
      from inspect Inr have f: "fetch_mirror rt req env =
          (case upstream_fetch rt ?out of
                   None \<Rightarrow> \<lparr>sent = Some ?out, reply = None\<rparr>
                 | Some upstreamRes \<Rightarrow>
                     \<lparr>sent = Some ?out,
                      reply = Some (withCORS
                        \<lparr>status = ustatus upstreamRes, rheaders = uheaders upstreamRes,
                         rbody = (case ubody upstreamRes of None \<Rightarrow> NoBody | Some st \<Rightarrow> Piped st)\<rparr>
                        ?o)\<rparr>)"
        by (simp add: fetch_mirror_def Let_def)
      with r obtain g where g: "upstream_fetch rt ?out = Some g"
        by (cases "upstream_fetch rt ?out") auto
      with f r have "sent (fetch_mirror rt req env) = Some ?out"
        and "r = withCORS \<lparr>status = ustatus g, rheaders = uheaders g,
                         rbody = (case ubody g of None \<Rightarrow> NoBody | Some st \<Rightarrow> Piped st)\<rparr> ?o"
        by simp_all
      with g show ?thesis by fastforce
    qed
  qed
qed

text \<open>
  Claim C4 says that the response carries \<^verbatim>\<open>Vary: Origin\<close> exactly when the resolved origin is
  not the wildcard. \<^verbatim>\<open>withCORS\<close> keeps the headers of the response it wraps, so a proxied
  response whose upstream sent \<^verbatim>\<open>Vary: Origin\<close> carries it under the wildcard too.
\<close>

theorem vary_from_upstream_counterexample:
  "pickOrigin
     \<lparr>httpMethod = ''GET'', pathname = ''/openai/v1/models'', search = [], headers = [], payload = None\<rparr>
     sample_env = ''*'' \<and>
   reply (fetch_mirror (sample_runtime (Some vary_answer))
     \<lparr>httpMethod = ''GET'', pathname = ''/openai/v1/models'', search = [], headers = [], payload = None\<rparr>
     sample_env)
   = Some \<lparr>status = 200,
        rheaders = [(''vary'', ''Origin''),
          (''access-control-allow-origin'', ''*''),
          (''access-control-allow-headers'', ''Content-Type, Authorization''),
          (''access-control-allow-methods'', ''GET, POST, OPTIONS'')],
        rbody = Piped (Content ''[]'')\<rparr> \<and>
   hasHeader [(''vary'', ''Origin''),
          (''access-control-allow-origin'', ''*''),
          (''access-control-allow-headers'', ''Content-Type, Authorization''),
          (''access-control-allow-methods'', ''GET, POST, OPTIONS'')] ''Vary'' ''Origin''"
  by (simp add: fetch_mirror_def Let_def replied_def withCORS_def pickOrigin_def sample_env_def
      allowedPath_def defaults_def outboundHeaders_def prepareBody_def hset_def hvalues_def
      hdelete_def hget_def sameName_def lower_lits sample_runtime_def vary_answer_def hasHeader_def)

text \<open>
  Claim C4, amended: the \<^verbatim>\<open>Access-Control-Allow-Origin\<close> of every response is the resolved
  origin, which is the request's \<^verbatim>\<open>Origin\<close> when the allowlist holds it, else the first entry
  of a non-empty allowlist, else the wildcard. A resolved origin other than the wildcard puts
  \<^verbatim>\<open>Vary: Origin\<close> on the response; under the wildcard the handler adds none, and the response
  carries one only when it is a proxied response whose upstream sent that header.
\<close>

theorem cors_resolution:
  "reply (fetch_mirror rt req env) = Some r \<longrightarrow>
     hget (rheaders r) ''Access-Control-Allow-Origin'' = Some (pickOrigin req env) \<and>
     pickOrigin req env = spec_origin (csv (CORS_ORIGINS env)) (hget (headers req) ''Origin'') \<and>
     (pickOrigin req env \<noteq> ''*'' \<longrightarrow> hasHeader (rheaders r) ''Vary'' ''Origin'') \<and>
     (pickOrigin req env = ''*'' \<and> hasHeader (rheaders r) ''Vary'' ''Origin'' \<longrightarrow>
        (\<exists>out g. sent (fetch_mirror rt req env) = Some out \<and> upstream_fetch rt out = Some g \<and>
           hasHeader (uheaders g) ''Vary'' ''Origin''))"
proof
  assume "reply (fetch_mirror rt req env) = Some r"
  from mirror_reply [OF this] obtain res where res: "r = withCORS res (pickOrigin req env)"
    and up: "hasHeader (rheaders res) ''Vary'' ''Origin'' \<longrightarrow>
          (\<exists>out g. sent (fetch_mirror rt req env) = Some out \<and> upstream_fetch rt out = Some g \<and>
             hasHeader (uheaders g) ''Vary'' ''Origin'')"
    by blast
  have a: "hget (rheaders r) ''Access-Control-Allow-Origin'' = Some (pickOrigin req env)"
    by (simp add: res withCORS_origin)
  have v: "hasHeader (rheaders r) ''Vary'' ''Origin'' \<longleftrightarrow>
     pickOrigin req env \<noteq> ''*'' \<or> hasHeader (rheaders res) ''Vary'' ''Origin''"
    by (simp only: res withCORS_vary)
  from a v up pickOrigin_spec [of req env]
  show "hget (rheaders r) ''Access-Control-Allow-Origin'' = Some (pickOrigin req env) \<and>
     pickOrigin req env = spec_origin (csv (CORS_ORIGINS env)) (hget (headers req) ''Origin'') \<and>
     (pickOrigin req env \<noteq> ''*'' \<longrightarrow> hasHeader (rheaders r) ''Vary'' ''Origin'') \<and>
     (pickOrigin req env = ''*'' \<and> hasHeader (rheaders r) ''Vary'' ''Origin'' \<longrightarrow>
        (\<exists>out g. sent (fetch_mirror rt req env) = Some out \<and> upstream_fetch rt out = Some g \<and>
           hasHeader (uheaders g) ''Vary'' ''Origin''))"
    by blast
qed

theorem cors_resolution_witness:
  "reply (fetch_mirror (sample_runtime None)
     \<lparr>httpMethod = ''GET'', pathname = ''/nowhere'', search = [],
      headers = [(''origin'', ''https://evil.com'')], payload = None\<rparr>
     (sample_env\<lparr>CORS_ORIGINS := Some ''https://good.com''\<rparr>))
   = Some \<lparr>status = 404,
        rheaders = [(''content-type'', ''text/plain;charset=UTF-8''),
          (''access-control-allow-origin'', ''https://good.com''),
          (''access-control-allow-headers'', ''Content-Type, Authorization''),
          (''access-control-allow-methods'', ''GET, POST, OPTIONS''),
          (''vary'', ''Origin'')],
        rbody = Text ''Not found''\<rparr> \<and>
   hget [(''content-type'', ''text/plain;charset=UTF-8''),
          (''access-control-allow-origin'', ''https://good.com''),
          (''access-control-allow-headers'', ''Content-Type, Authorization''),
          (''access-control-allow-methods'', ''GET, POST, OPTIONS''),
          (''vary'', ''Origin'')] ''Access-Control-Allow-Origin'' = Some ''https://good.com'' \<and>
   hasHeader [(''content-type'', ''text/plain;charset=UTF-8''),
          (''access-control-allow-origin'', ''https://good.com''),
          (''access-control-allow-headers'', ''Content-Type, Authorization''),
          (''access-control-allow-methods'', ''GET, POST, OPTIONS''),
          (''vary'', ''Origin'')] ''Vary'' ''Origin''"
proof -
  let ?req = "\<lparr>httpMethod = ''GET'', pathname = ''/nowhere'', search = [],
      headers = [(''origin'', ''https://evil.com'')], payload = None\<rparr>"
  let ?env = "sample_env\<lparr>CORS_ORIGINS := Some ''https://good.com''\<rparr>"
  let ?h = "[(''content-type'', ''text/plain;charset=UTF-8''),
          (''access-control-allow-origin'', ''https://good.com''),
          (''access-control-allow-headers'', ''Content-Type, Authorization''),
          (''access-control-allow-methods'', ''GET, POST, OPTIONS''),
          (''vary'', ''Origin'')]"
  have c: "csv (Some ''https://good.com'') = [''https://good.com'']"
    by (simp add: csv_def trim_def isWhiteSpace_def)
  have o: "pickOrigin ?req ?env = ''https://good.com''"
    by (simp add: pickOrigin_def sample_env_def c hget_def hvalues_def sameName_def lower_lits)
  have a: "\<not> allowedPath ''/nowhere'' ?env"
    by (simp add: allowedPath_def sample_env_def defaults_def)
  have r: "reply (fetch_mirror (sample_runtime None) ?req ?env)
      = Some \<lparr>status = 404, rheaders = ?h, rbody = Text ''Not found''\<rparr>"
    using a by (simp add: fetch_mirror_def Let_def replied_def o withCORS_def hset_def hvalues_def
        happend_def sameName_def lower_lits)
  from cors_resolution [of "sample_runtime None" ?req ?env
      "\<lparr>status = 404, rheaders = ?h, rbody = Text ''Not found''\<rparr>"] r o
  show ?thesis by simp
qed

section \<open>The outbound headers (path-mirroring worker)\<close>

lemma outbound_auth:
  "hvalues (outboundHeaders req env) ''Authorization'' = [''Bearer '' @ GROQ_API_KEY env]"
  by (simp add: outboundHeaders_def Let_def hvalues_hdelete hvalues_hset sameName_def lower_lits)

lemma outbound_auth_get:
  "hget (outboundHeaders req env) ''Authorization'' = Some (''Bearer '' @ GROQ_API_KEY env)"
  by (simp add: hget_def outbound_auth)

lemma outbound_host: "hget (outboundHeaders req env) ''Host'' = None"
  by (simp add: outboundHeaders_def Let_def hget_hdelete)

lemma outbound_ct:
  "hget (outboundHeaders req env) ''Content-Type'' =
     Some (orElse (hget (headers req) ''Content-Type'') ''application/json'')"
  by (simp add: outboundHeaders_def Let_def hget_hdelete hget_hset sameName_def lower_lits)

lemma mirror_gate:
  assumes "pathname req \<noteq> ''/health''" "httpMethod req \<noteq> ''OPTIONS''"
    "allowedPath (pathname req) env"
  shows "fetch_mirror rt req env =
    (case prepareBody rt req env (outboundHeaders req env) of
       Inl res \<Rightarrow> replied (withCORS res (pickOrigin req env))
     | Inr b \<Rightarrow>
         (let out = \<lparr>url = Relative (pathname req @ search req) UPSTREAM_ORIGIN,
                     omethod = httpMethod req,
                     oheaders = outboundHeaders req env,
                     obody = (if httpMethod req = ''GET'' \<or> httpMethod req = ''HEAD'' then NoBody else b)\<rparr>
          in \<lparr>sent = Some out,
              reply = map_option (\<lambda>upstreamRes. withCORS
                        \<lparr>status = ustatus upstreamRes, rheaders = uheaders upstreamRes,
                         rbody = (case ubody upstreamRes of None \<Rightarrow> NoBody | Some st \<Rightarrow> Piped st)\<rparr>
                        (pickOrigin req env)) (upstream_fetch rt out)\<rparr>))"
  using assms by (simp add: fetch_mirror_def Let_def split: sum.splits option.splits)

lemma mirror_sent:
  assumes "sent (fetch_mirror rt req env) = Some out"
  shows "pathname req \<noteq> ''/health'' \<and> httpMethod req \<noteq> ''OPTIONS'' \<and> allowedPath (pathname req) env \<and>
     oheaders out = outboundHeaders req env \<and>
     (\<exists>b. prepareBody rt req env (outboundHeaders req env) = Inr b \<and>
        obody out = (if httpMethod req = ''GET'' \<or> httpMethod req = ''HEAD'' then NoBody else b))"
proof -
  have g: "pathname req \<noteq> ''/health'' \<and> httpMethod req \<noteq> ''OPTIONS'' \<and> allowedPath (pathname req) env"
    using assms by (auto simp: fetch_mirror_def Let_def replied_def split: if_splits)
  with mirror_gate [of req env rt] assms show ?thesis
    by (cases "prepareBody rt req env (outboundHeaders req env)") (auto simp: replied_def Let_def)
qed

lemma allowed_models_default: "allowedPath ''/openai/v1/models'' sample_env"
  by (simp add: allowedPath_def sample_env_def defaults_def)

lemma sample_key: "GROQ_API_KEY sample_env = ''gsk_secret''"
  by (simp add: sample_env_def)

text \<open>
  Claim C2 says that the outbound \<^verbatim>\<open>Content-Type\<close> is the incoming one whenever one was set.
  The handler writes \<^verbatim>\<open>headers.get('Content-Type') || 'application/json'\<close>, and the empty
  string is falsy: a request whose \<^verbatim>\<open>Content-Type\<close> is set to the empty value goes out with
  \<^verbatim>\<open>application/json\<close>.
\<close>

theorem empty_content_type_counterexample:
  "hget [(''content-type'', [])] ''Content-Type'' = Some [] \<and>
   sent (fetch_mirror (sample_runtime (Some vary_answer))
     \<lparr>httpMethod = ''GET'', pathname = ''/openai/v1/models'', search = [],
      headers = [(''content-type'', [])], payload = None\<rparr> sample_env)
   = Some \<lparr>url = Relative ''/openai/v1/models'' ''https://api.groq.com'', omethod = ''GET'',
        oheaders = [(''content-type'', ''application/json''),
                    (''authorization'', ''Bearer gsk_secret'')],
        obody = NoBody\<rparr>"
  by (simp add: mirror_gate allowed_models_default prepareBody_def outboundHeaders_def Let_def
      hget_def hset_def hvalues_def hdelete_def sameName_def lower_lits sample_key
      UPSTREAM_ORIGIN_def)

text \<open>
  Claim C2, amended: on every proxied request the outbound \<^verbatim>\<open>Authorization\<close> is
  \<^verbatim>\<open>Bearer\<close> followed by the configured credential and is the only value under that name
  (the caller's own is not forwarded), there is no \<^verbatim>\<open>Host\<close> header, and \<^verbatim>\<open>Content-Type\<close> is
  the incoming one when that is set and not empty, \<^verbatim>\<open>application/json\<close> otherwise.
\<close>

theorem outbound_headers:
  "sent (fetch_mirror rt req env) = Some out \<longrightarrow>
     hget (oheaders out) ''Authorization'' = Some (''Bearer '' @ GROQ_API_KEY env) \<and>
     hvalues (oheaders out) ''Authorization'' = [''Bearer '' @ GROQ_API_KEY env] \<and>
     hget (oheaders out) ''Host'' = None \<and>
     hget (oheaders out) ''Content-Type'' =
       Some (case hget (headers req) ''Content-Type'' of
               None \<Rightarrow> ''application/json''
             | Some c \<Rightarrow> if c = [] then ''application/json'' else c)"
proof
  assume "sent (fetch_mirror rt req env) = Some out"
  from mirror_sent [OF this] have h: "oheaders out = outboundHeaders req env" by blast
  show "hget (oheaders out) ''Authorization'' = Some (''Bearer '' @ GROQ_API_KEY env) \<and>
     hvalues (oheaders out) ''Authorization'' = [''Bearer '' @ GROQ_API_KEY env] \<and>
     hget (oheaders out) ''Host'' = None \<and>
     hget (oheaders out) ''Content-Type'' =
       Some (case hget (headers req) ''Content-Type'' of
               None \<Rightarrow> ''application/json''
             | Some c \<Rightarrow> if c = [] then ''application/json'' else c)"
    unfolding h
    by (cases "hget (headers req) ''Content-Type''")
      (simp_all add: outbound_auth outbound_auth_get outbound_host outbound_ct)
qed

theorem outbound_headers_witness:
  "sent (fetch_mirror (sample_runtime (Some vary_answer))
     \<lparr>httpMethod = ''GET'', pathname = ''/openai/v1/models'', search = [],
      headers = [(''Authorization'', ''Bearer mine''), (''Host'', ''relay.example'')], payload = None\<rparr>
     sample_env)
   = Some \<lparr>url = Relative ''/openai/v1/models'' ''https://api.groq.com'', omethod = ''GET'',
        oheaders = [(''Authorization'', ''Bearer gsk_secret''), (''content-type'', ''application/json'')],
        obody = NoBody\<rparr> \<and>
   hvalues [(''Authorization'', ''Bearer gsk_secret''), (''content-type'', ''application/json'')]
     ''Authorization'' = [''Bearer gsk_secret''] \<and>
   hget [(''Authorization'', ''Bearer gsk_secret''), (''content-type'', ''application/json'')]
     ''Host'' = None \<and>
   hget [(''Authorization'', ''Bearer gsk_secret''), (''content-type'', ''application/json'')]
     ''Content-Type'' = Some ''application/json''"
proof -
  let ?req = "\<lparr>httpMethod = ''GET'', pathname = ''/openai/v1/models'', search = [],
      headers = [(''Authorization'', ''Bearer mine''), (''Host'', ''relay.example'')], payload = None\<rparr>"
  let ?out = "\<lparr>url = Relative ''/openai/v1/models'' ''https://api.groq.com'', omethod = ''GET'',
        oheaders = [(''Authorization'', ''Bearer gsk_secret''), (''content-type'', ''application/json'')],
        obody = NoBody\<rparr>"
  have s: "sent (fetch_mirror (sample_runtime (Some vary_answer)) ?req sample_env) = Some ?out"
    by (simp add: mirror_gate allowed_models_default prepareBody_def outboundHeaders_def Let_def
      hget_def hset_def hvalues_def hdelete_def sameName_def lower_lits sample_key
      UPSTREAM_ORIGIN_def)
  have k: "GROQ_API_KEY sample_env = ''gsk_secret''"
    by (simp add: sample_env_def)
  have c: "hget (headers ?req) ''Content-Type'' = None"
    by (simp add: hget_def hvalues_def sameName_def lower_lits)
  from outbound_headers [of "sample_runtime (Some vary_answer)" ?req sample_env ?out] s k c
  show ?thesis by simp
qed

section \<open>The gates of the path-mirroring worker\<close>

lemma includes_nonempty: "includes_str c ''application/json'' \<Longrightarrow> c \<noteq> []"
  by auto

lemma prepareBody_json:
  assumes "httpMethod req = ''POST''" and "hget (headers req) ''Content-Type'' = Some c"
    and "includes_str c ''application/json''"
  shows "prepareBody rt req env (outboundHeaders req env) =
    (case parseBody rt (readText req) of
       None \<Rightarrow>
         Inl \<lparr>status = 400, rheaders = [(''content-type'', ''application/json'')],
              rbody = Text (JSON_stringify rt (JObj [(''error'', JStr ''Invalid JSON'')]))\<rparr>
     | Some j \<Rightarrow>
         if csv (ALLOW_MODELS env) \<noteq> [] \<and> requested j \<notin> set (csv (ALLOW_MODELS env)) then
           Inl \<lparr>status = 403, rheaders = [(''content-type'', ''application/json'')],
                rbody = Text (JSON_stringify rt
                  (JObj [(''error'', JStr ''Model not allowed''),
                         (''allowed'', JArr (map JStr (csv (ALLOW_MODELS env))))]))\<rparr>
         else Inr (Text (JSON_stringify rt j)))"
proof -
  from assms(3) have ne: "c \<noteq> []" by (rule includes_nonempty)
  with assms(2) have ct: "orElse (hget (outboundHeaders req env) ''Content-Type'') [] = c"
    by (simp add: outbound_ct)
  have e: "\<And>m. (m = [] \<or> m \<notin> set (csv (ALLOW_MODELS env))) = (m \<notin> set (csv (ALLOW_MODELS env)))"
    using csv_no_empty [of "ALLOW_MODELS env"] by auto
  show ?thesis
    using assms(1,3) by (simp add: prepareBody_def ct Let_def e split: option.splits)
qed

lemma prepareBody_post:
  assumes "httpMethod req = ''POST''"
  shows "prepareBody rt req env (outboundHeaders req env) =
    (if includes_str (orElse (hget (headers req) ''Content-Type'') ''application/json'')
          ''application/json''
     then (case parseBody rt (readText req) of
             None \<Rightarrow>
               Inl \<lparr>status = 400, rheaders = [(''content-type'', ''application/json'')],
                    rbody = Text (JSON_stringify rt (JObj [(''error'', JStr ''Invalid JSON'')]))\<rparr>
           | Some j \<Rightarrow>
               if csv (ALLOW_MODELS env) \<noteq> [] \<and> requested j \<notin> set (csv (ALLOW_MODELS env)) then
                 Inl \<lparr>status = 403, rheaders = [(''content-type'', ''application/json'')],
                      rbody = Text (JSON_stringify rt
                        (JObj [(''error'', JStr ''Model not allowed''),
                               (''allowed'', JArr (map JStr (csv (ALLOW_MODELS env))))]))\<rparr>
               else Inr (Text (JSON_stringify rt j)))
     else Inr (case payload req of None \<Rightarrow> NoBody | Some t \<Rightarrow> Piped (Content t)))"
proof -
  have ct: "orElse (hget (outboundHeaders req env) ''Content-Type'') [] =
      orElse (hget (headers req) ''Content-Type'') ''application/json''"
    by (simp add: outbound_ct)
  have e: "\<And>m. (m = [] \<or> m \<notin> set (csv (ALLOW_MODELS env))) = (m \<notin> set (csv (ALLOW_MODELS env)))"
    using csv_no_empty [of "ALLOW_MODELS env"] by auto
  show ?thesis
    using assms by (simp add: prepareBody_def ct Let_def e split: option.splits)
qed

lemma prepareBody_other:
  "httpMethod req \<noteq> ''POST'' \<Longrightarrow> prepareBody rt req env hs = Inr NoBody"
  by (simp add: prepareBody_def)


lemma allowedPath_spec:
  "allowedPath p env \<longleftrightarrow>
     (\<exists>a \<in> set (if csv (ALLOW_PATHS env) = [] then defaults else csv (ALLOW_PATHS env)).
        p = a \<or> startsWith p a)"
  by (simp add: allowedPath_def Let_def list_ex_iff)

lemma csv_llama: "csv (Some ''llama-3.1-8b-instant'') = [''llama-3.1-8b-instant'']"
  by (simp add: csv_def trim_def isWhiteSpace_def)

lemma csv_slash: "csv (Some ''/'') = [''/'']"
  by (simp add: csv_def trim_def isWhiteSpace_def)

lemma strict_models: "csv (ALLOW_MODELS strict_env) = [''llama-3.1-8b-instant'']"
  by (simp add: strict_env_def csv_llama)


lemma allowed_samples:
  "allowedPath ''/health'' open_env"
  "allowedPath ''/openai/v1/chat/completions'' sample_env"
  "allowedPath ''/openai/v1/chat/completions'' strict_env"
  "\<not> allowedPath ''/nowhere'' strict_env"
  by (simp_all add: allowedPath_def open_env_def strict_env_def sample_env_def defaults_def csv_slash)

lemma post_json_fields:
  "httpMethod (post_json p b) = ''POST''"
  "pathname (post_json p b) = p"
  "hget (headers (post_json p b)) ''Content-Type'' = Some ''application/json''"
  "readText (post_json p b) = (case b of None \<Rightarrow> [] | Some t \<Rightarrow> t)"
  by (simp_all add: post_json_def readText_def hget_def hvalues_def sameName_def lower_lits)

lemma json_includes: "includes_str ''application/json'' ''application/json''"
  by simp

lemma requested_gpt4: "requested (JObj [(''model'', JStr ''gpt-4'')]) = ''gpt-4''"
  by (simp add: requested_def trim_def isWhiteSpace_def)

lemma sample_parse_gpt4:
  "parseBody (sample_runtime a) text_model_gpt4 = Some (JObj [(''model'', JStr ''gpt-4'')])"
  by (simp add: parseBody_def sample_runtime_def sample_parse_def sample_texts_def quoted_def
      text_ok_def text_user_hi_def text_user_empty_def text_model_gpt4_def text_envelope_429_def)

lemma sample_parse_not_json: "parseBody (sample_runtime a) ''not json'' = None"
  by (simp add: parseBody_def sample_runtime_def sample_parse_def sample_texts_def quoted_def
      text_ok_def text_user_hi_def text_user_empty_def text_model_gpt4_def text_envelope_429_def)


text \<open>
  Claim C3 says that a request that is neither an OPTIONS request nor one to \<^verbatim>\<open>/health\<close> is
  proxied exactly when its path is allowed. The payload inspection comes after the path gate:
  a JSON POST to an allowed path that asks for a model outside the allowlist is answered with
  403 and not proxied.
\<close>

theorem path_gate_counterexample:
  "allowedPath ''/openai/v1/chat/completions'' strict_env \<and>
   sent (fetch_mirror (sample_runtime (Some vary_answer))
       (post_json ''/openai/v1/chat/completions'' (Some text_model_gpt4)) strict_env) = None \<and>
   map_option status
     (reply (fetch_mirror (sample_runtime (Some vary_answer))
       (post_json ''/openai/v1/chat/completions'' (Some text_model_gpt4)) strict_env))
     = Some 403"
proof -
  let ?req = "post_json ''/openai/v1/chat/completions'' (Some text_model_gpt4)"
  let ?rt = "sample_runtime (Some vary_answer)"
  have p: "prepareBody ?rt ?req strict_env (outboundHeaders ?req strict_env) =
      Inl \<lparr>status = 403, rheaders = [(''content-type'', ''application/json'')],
                rbody = Text (JSON_stringify ?rt
                  (JObj [(''error'', JStr ''Model not allowed''),
                         (''allowed'', JArr (map JStr (csv (ALLOW_MODELS strict_env))))]))\<rparr>"
    by (simp add: prepareBody_json [OF post_json_fields(1) post_json_fields(3) json_includes]
        post_json_fields sample_parse_gpt4 strict_models requested_gpt4)
  show ?thesis
    by (simp add: mirror_gate post_json_fields allowed_samples p replied_def)
qed

text \<open>
  Claim C3, amended: for a request that is neither an OPTIONS request nor one to \<^verbatim>\<open>/health\<close>,
  the path is allowed when it equals or starts with a member of the allowlist (the configured
  list when that is not empty, the four defaults otherwise). A path that is not allowed gets
  404 and nothing is proxied. A request to an allowed path is proxied unless the payload
  inspection rejects it. That happens only to a POST whose content type in effect (the
  incoming \<^verbatim>\<open>Content-Type\<close>, or \<^verbatim>\<open>application/json\<close> when that is missing or empty) contains
  \<^verbatim>\<open>application/json\<close>: with 400 when its body text is not empty and does not parse, with 403
  when it parses (the empty text as the empty object) and the model allowlist is not empty and
  does not hold the requested model. Every other request to an allowed path is proxied.
\<close>

theorem path_gate:
  "httpMethod req \<noteq> ''OPTIONS'' \<and> pathname req \<noteq> ''/health'' \<longrightarrow>
     (allowedPath (pathname req) env \<longleftrightarrow>
        (\<exists>a \<in> set (if csv (ALLOW_PATHS env) = [] then defaults else csv (ALLOW_PATHS env)).
           pathname req = a \<or> startsWith (pathname req) a)) \<and>
     (\<not> allowedPath (pathname req) env \<longrightarrow>
        sent (fetch_mirror rt req env) = None \<and>
        (\<exists>r. reply (fetch_mirror rt req env) = Some r \<and> status r = 404)) \<and>
     (allowedPath (pathname req) env \<longrightarrow>
        (sent (fetch_mirror rt req env) = None \<longleftrightarrow>
           httpMethod req = ''POST'' \<and>
           includes_str (orElse (hget (headers req) ''Content-Type'') ''application/json'')
             ''application/json'' \<and>
           (case parseBody rt (readText req) of
              None \<Rightarrow> True
            | Some j \<Rightarrow>
                csv (ALLOW_MODELS env) \<noteq> [] \<and> requested j \<notin> set (csv (ALLOW_MODELS env)))) \<and>
        (sent (fetch_mirror rt req env) = None \<longrightarrow>
           (\<exists>r. reply (fetch_mirror rt req env) = Some r \<and>
              status r = (case parseBody rt (readText req) of None \<Rightarrow> 400 | Some j \<Rightarrow> 403))))"
proof (intro impI, elim conjE)
  assume o: "httpMethod req \<noteq> ''OPTIONS''" and h: "pathname req \<noteq> ''/health''"
  have nf: "\<not> allowedPath (pathname req) env \<longrightarrow>
        sent (fetch_mirror rt req env) = None \<and>
        (\<exists>r. reply (fetch_mirror rt req env) = Some r \<and> status r = 404)"
    using o h by (simp add: fetch_mirror_def Let_def replied_def)
  have al: "allowedPath (pathname req) env \<longrightarrow>
        (sent (fetch_mirror rt req env) = None \<longleftrightarrow>
           httpMethod req = ''POST'' \<and>
           includes_str (orElse (hget (headers req) ''Content-Type'') ''application/json'')
             ''application/json'' \<and>
           (case parseBody rt (readText req) of
              None \<Rightarrow> True
            | Some j \<Rightarrow>
                csv (ALLOW_MODELS env) \<noteq> [] \<and> requested j \<notin> set (csv (ALLOW_MODELS env)))) \<and>
        (sent (fetch_mirror rt req env) = None \<longrightarrow>
           (\<exists>r. reply (fetch_mirror rt req env) = Some r \<and>
              status r = (case parseBody rt (readText req) of None \<Rightarrow> 400 | Some j \<Rightarrow> 403)))"
  proof
    assume a: "allowedPath (pathname req) env"
    note g = mirror_gate [OF h o a, of rt]
    show "(sent (fetch_mirror rt req env) = None \<longleftrightarrow>
           httpMethod req = ''POST'' \<and>
           includes_str (orElse (hget (headers req) ''Content-Type'') ''application/json'')
             ''application/json'' \<and>
           (case parseBody rt (readText req) of
              None \<Rightarrow> True
            | Some j \<Rightarrow>
                csv (ALLOW_MODELS env) \<noteq> [] \<and> requested j \<notin> set (csv (ALLOW_MODELS env)))) \<and>
        (sent (fetch_mirror rt req env) = None \<longrightarrow>
           (\<exists>r. reply (fetch_mirror rt req env) = Some r \<and>
              status r = (case parseBody rt (readText req) of None \<Rightarrow> 400 | Some j \<Rightarrow> 403)))"
    proof (cases "httpMethod req = ''POST''")
      case True
      show ?thesis
        by (simp add: g prepareBody_post [OF True] replied_def Let_def True split: option.splits)
    next
      case False
      then show ?thesis
        by (simp add: g prepareBody_other Let_def)
    qed
  qed
  from nf al allowedPath_spec [of "pathname req" env]
  show "(allowedPath (pathname req) env \<longleftrightarrow>
        (\<exists>a \<in> set (if csv (ALLOW_PATHS env) = [] then defaults else csv (ALLOW_PATHS env)).
           pathname req = a \<or> startsWith (pathname req) a)) \<and>
     (\<not> allowedPath (pathname req) env \<longrightarrow>
        sent (fetch_mirror rt req env) = None \<and>
        (\<exists>r. reply (fetch_mirror rt req env) = Some r \<and> status r = 404)) \<and>
     (allowedPath (pathname req) env \<longrightarrow>
        (sent (fetch_mirror rt req env) = None \<longleftrightarrow>
           httpMethod req = ''POST'' \<and>
           includes_str (orElse (hget (headers req) ''Content-Type'') ''application/json'')
             ''application/json'' \<and>
           (case parseBody rt (readText req) of
              None \<Rightarrow> True
            | Some j \<Rightarrow>
                csv (ALLOW_MODELS env) \<noteq> [] \<and> requested j \<notin> set (csv (ALLOW_MODELS env)))) \<and>
        (sent (fetch_mirror rt req env) = None \<longrightarrow>
           (\<exists>r. reply (fetch_mirror rt req env) = Some r \<and>
              status r = (case parseBody rt (readText req) of None \<Rightarrow> 400 | Some j \<Rightarrow> 403))))"
    by blast
qed

theorem path_gate_witness:
  "httpMethod \<lparr>httpMethod = ''POST'', pathname = ''/openai/v1/models'', search = [], headers = [],
      payload = Some ''not json''\<rparr> \<noteq> ''OPTIONS'' \<and>
   allowedPath ''/openai/v1/models'' sample_env \<and>
   hget [] ''Content-Type'' = None \<and>
   parseBody (sample_runtime None) ''not json'' = None \<and>
   sent (fetch_mirror (sample_runtime None)
     \<lparr>httpMethod = ''POST'', pathname = ''/openai/v1/models'', search = [], headers = [],
      payload = Some ''not json''\<rparr> sample_env) = None \<and>
   (\<exists>r. reply (fetch_mirror (sample_runtime None)
     \<lparr>httpMethod = ''POST'', pathname = ''/openai/v1/models'', search = [], headers = [],
      payload = Some ''not json''\<rparr> sample_env) = Some r \<and> status r = 400) \<and>
   sent (fetch_mirror (sample_runtime None)
     \<lparr>httpMethod = ''GET'', pathname = ''/openai/v1/models'', search = [], headers = [],
      payload = None\<rparr> sample_env) \<noteq> None"
proof -
  let ?post = "\<lparr>httpMethod = ''POST'', pathname = ''/openai/v1/models'', search = [], headers = [],
      payload = Some ''not json''\<rparr>"
  let ?get = "\<lparr>httpMethod = ''GET'', pathname = ''/openai/v1/models'', search = [], headers = [],
      payload = None\<rparr>"
  let ?rt = "sample_runtime None"
  have c: "hget [] ''Content-Type'' = None"
    by (simp add: hget_def)
  have n: "parseBody ?rt ''not json'' = None"
    by (rule sample_parse_not_json)
  have hp: "httpMethod ?post \<noteq> ''OPTIONS'' \<and> pathname ?post \<noteq> ''/health''"
    by simp
  have hg: "httpMethod ?get \<noteq> ''OPTIONS'' \<and> pathname ?get \<noteq> ''/health''"
    by simp
  have ap: "allowedPath (pathname ?post) sample_env" "allowedPath (pathname ?get) sample_env"
    by (simp_all add: allowed_models_default)
  have rp: "readText ?post = ''not json''"
    by (simp add: readText_def)
  from path_gate [of ?post sample_env ?rt] hp ap(1)
  have p: "sent (fetch_mirror ?rt ?post sample_env) = None \<and>
      (\<exists>r. reply (fetch_mirror ?rt ?post sample_env) = Some r \<and> status r = 400)"
    by (simp add: c n rp)
  from path_gate [of ?get sample_env ?rt] hg ap(2)
  have "sent (fetch_mirror ?rt ?get sample_env) = None \<longleftrightarrow> False"
    by simp
  then have q: "sent (fetch_mirror ?rt ?get sample_env) \<noteq> None"
    by blast
  from p q c n allowed_models_default show ?thesis
    by simp
qed







end
